theory Spec2Isabelle
  imports Main "HOL-Library.Sublist"
begin

section \<open>Error values\<close>

text \<open>
  A Go value of interface type \<open>error\<close> is modelled as \<open>error option\<close>: \<open>None\<close> is the nil
  interface. A non-nil value carries its dynamic type, which the code inspects
  (\<open>e.prev.(*Checkpoint)\<close>):
  \<^item> \<open>Foreign ty i m w\<close> is an error of any type other than \<open>Checkpoint\<close> and
    \<open>*Checkpoint\<close>: \<open>ty\<close> is its dynamic type, a name and whether the type is comparable
    (a pointer, a string, a number are; a slice, a map, a function are not), \<open>i\<close> stands
    for the value (the address of an \<open>errors.New\<close> value, the contents otherwise), \<open>m\<close>
    is what its \<open>Error()\<close> returns and \<open>%v\<close> prints, \<open>w\<close> is what its \<open>Unwrap()\<close>
    returns (\<open>None\<close> when it has no such method or returns nil);
  \<^item> \<open>Value c\<close> is a \<open>Checkpoint\<close> struct held by value, which is what \<open>From\<close> and \<open>Wrap\<close>
    return;
  \<^item> \<open>Pointer a c\<close> is a non-nil \<open>*Checkpoint\<close> with address \<open>a\<close> pointing to \<open>c\<close>; the
    pointer type has the methods of \<open>Checkpoint\<close>, so it is an \<open>error\<close> too.
  The field \<open>file\<close> of the struct is the selector \<open>file'\<close>.
  A foreign error is compared as a whole: a foreign struct type whose fields hold other
  interface values is not modelled. Foreign errors with \<open>Is\<close>, \<open>As\<close> or \<open>Format\<close>
  methods of their own, and nil pointers inside a non-nil interface, are not modelled
  either.
\<close>

datatype go_type = Named_type (type_name: string) (comparable: bool)

datatype error =
    Foreign (dyn_type: go_type) (ident: nat) (msg: string) (wrapped: "error option")
  | Value Checkpoint
  | Pointer (addr: nat) Checkpoint
and Checkpoint =
    Checkpoint (err: "error option") (prev: "error option")
               (callerOk: bool) (file': string) (line: int)

text \<open>\<open>type Option = func(err error) error\<close>, a pure function.\<close>

type_synonym Option = "error option \<Rightarrow> error option"

text \<open>
  What \<open>runtime.Caller(1)\<close> returns to the builder, without the program counter:
  the file path, the line and whether the frame could be read. It is a parameter of
  the builders.
\<close>

type_synonym caller = "string \<times> int \<times> bool"

section \<open>Library functions the code calls\<close>

text \<open>
  Modelled from the spec: the two stream-termination sentinels \<open>io.EOF\<close> and
  \<open>io.ErrUnexpectedEOF\<close> of the Go library, two distinct \<open>errors.New\<close> values that are
  compared by identity. Their type is a pointer type, which is comparable.
\<close>

definition errorString_ptr :: go_type where
  "errorString_ptr = Named_type ''*errors.errorString'' True"

definition io_EOF :: error where
  "io_EOF = Foreign errorString_ptr 0 ''EOF'' None"

definition io_ErrUnexpectedEOF :: error where
  "io_ErrUnexpectedEOF = Foreign errorString_ptr 1 ''unexpected EOF'' None"

text \<open>
  Modelled from the spec: \<open>filepath.Base\<close> of the Go library with \<open>/\<close> as separator
  (base name only, directories stripped): the empty path gives \<open>.\<close>, trailing slashes are
  dropped, the part after the last slash is returned, and a path of slashes only gives \<open>/\<close>.
\<close>

definition filepath_Base :: "string \<Rightarrow> string" where
  "filepath_Base path =
     (if path = [] then ''.''
      else
        (let stripped = rev (dropWhile (\<lambda>c. c = CHR ''/'') (rev path));
             last_elem = rev (takeWhile (\<lambda>c. c \<noteq> CHR ''/'') (rev stripped))
         in if last_elem = [] then ''/'' else last_elem))"

text \<open>
  Modelled from the spec: \<open>strings.ReplaceAll(s, old, new)\<close> of the Go library on byte
  strings: the non-overlapping occurrences of \<open>old\<close> are replaced from left to right; an
  empty \<open>old\<close> matches before every byte and at the end. The code calls it with
  \<open>old = "\n"\<close> only, to indent every line of a foreign message by one tab.
\<close>

function ReplaceAll :: "string \<Rightarrow> string \<Rightarrow> string \<Rightarrow> string" where
  "ReplaceAll s old new =
     (if s = [] then (if old = [] then new else [])
      else if old = [] then new @ hd s # ReplaceAll (tl s) old new
      else if take (length old) s = old
        then new @ ReplaceAll (drop (length old) s) old new
      else hd s # ReplaceAll (tl s) old new)"
  by pat_completeness auto
termination
  by (relation "measure (\<lambda>(s, old, new). length s)") auto

text \<open>The verb \<open>%d\<close> of \<open>fmt.Sprintf\<close> on an \<open>int\<close>: decimal digits, with a sign when negative.\<close>

fun digits :: "nat \<Rightarrow> string" where
  "digits n =
     (if n < 10 then [''0123456789'' ! n]
      else digits (n div 10) @ [''0123456789'' ! (n mod 10)])"

definition fmt_d :: "int \<Rightarrow> string" where
  "fmt_d i = (if i < 0 then CHR ''-'' # digits (nat (- i)) else digits (nat i))"

section \<open>The option \<open>IgnoreEOF\<close>\<close>

definition IgnoreEOF :: Option where
  "IgnoreEOF = (\<lambda>err.
     if err = Some io_EOF then Some io_EOF
     else if err = Some io_ErrUnexpectedEOF then Some io_ErrUnexpectedEOF
     else None)"

section \<open>The builders\<close>

text \<open>
  The loop over the options is the recursion on the list; its early return is the
  \<open>Some newErr\<close> branch. After the loop comes the nil check and the construction.
  The parameters \<open>err\<close> and \<open>prev\<close> of the source are \<open>er\<close> and \<open>prv\<close> here, since
  the fields of the struct have their names.
\<close>

fun From :: "caller \<Rightarrow> error option \<Rightarrow> Option list \<Rightarrow> error option" where
  "From c er (opt # options) =
     (case opt er of
        Some newErr \<Rightarrow> Some newErr
      | None \<Rightarrow> From c er options)"
| "From c er [] =
     (if er = None then None
      else
        (case c of (path, ln, ok) \<Rightarrow>
           Some (Value (Checkpoint er None ok (filepath_Base path) ln))))"

fun Wrap :: "caller \<Rightarrow> error option \<Rightarrow> error option \<Rightarrow> Option list \<Rightarrow> error option" where
  "Wrap c prv er (opt # options) =
     (case opt er of
        Some newErr \<Rightarrow> Some newErr
      | None \<Rightarrow> Wrap c prv er options)"
| "Wrap c prv er [] =
     (if prv = None then None
      else
        (case c of (path, ln, ok) \<Rightarrow>
           Some (Value (Checkpoint er prv ok (filepath_Base path) ln))))"

section \<open>The methods of \<open>Checkpoint\<close>\<close>

text \<open>The type assertion \<open>e.prev.(*Checkpoint)\<close> succeeds on a pointer only.\<close>

fun is_Checkpoint_ptr :: "error \<Rightarrow> bool" where
  "is_Checkpoint_ptr (Pointer a c) = True"
| "is_Checkpoint_ptr (Value c) = False"
| "is_Checkpoint_ptr (Foreign ty i m w) = False"

text \<open>
  \<open>Checkpoint_Error\<close> is the method \<open>Error\<close>; \<open>error_Error\<close> is the dynamic dispatch of
  \<open>Error()\<close> on an interface value. The verb \<open>%v\<close> prints a nil \<open>error\<close> as \<open><nil>\<close> and
  any other by its \<open>Error()\<close>.
\<close>

fun Checkpoint_Error :: "Checkpoint \<Rightarrow> string"
and error_Error :: "error \<Rightarrow> string" where
  "Checkpoint_Error (Checkpoint e p ok f l) =
     (let prevErrString =
            (case p of
               None \<Rightarrow> []
             | Some pe \<Rightarrow>
                 (let s = error_Error pe
                  in if is_Checkpoint_ptr pe then s
                     else ''File: unknown\<newline>'' @ [CHR 0x09]
                          @ ReplaceAll s ''\<newline>'' (''\<newline>'' @ [CHR 0x09])));
          v = (case e of None \<Rightarrow> ''<nil>'' | Some a \<Rightarrow> error_Error a)
      in if ok
         then ''File: '' @ f @ '':'' @ fmt_d l @ ''\<newline>'' @ [CHR 0x09] @ v
              @ ''\<newline>'' @ prevErrString
         else ''File: unknown\<newline>'' @ [CHR 0x09] @ v @ ''\<newline>'' @ prevErrString)"
| "error_Error (Foreign ty i m w) = m"
| "error_Error (Value c) = Checkpoint_Error c"
| "error_Error (Pointer a c) = Checkpoint_Error c"

definition Checkpoint_Unwrap :: "Checkpoint \<Rightarrow> error option" where
  "Checkpoint_Unwrap e = prev e"

definition Checkpoint_File :: "Checkpoint \<Rightarrow> string" where
  "Checkpoint_File e = file' e"

definition Checkpoint_Line :: "Checkpoint \<Rightarrow> int" where
  "Checkpoint_Line e = line e"

text \<open>
  A call of the library that compares interface values either returns or panics.
\<close>

datatype outcome = Returns bool | Panics

text \<open>
  \<open>a || b\<close> and \<open>a && b\<close> on outcomes: the right operand is evaluated only when the
  left one has returned and has not decided the result.
\<close>

fun or_else :: "outcome \<Rightarrow> outcome \<Rightarrow> outcome" where
  "or_else Panics y = Panics"
| "or_else (Returns True) y = Returns True"
| "or_else (Returns False) y = y"

fun and_then :: "outcome \<Rightarrow> outcome \<Rightarrow> outcome" where
  "and_then Panics y = Panics"
| "and_then (Returns False) y = Returns False"
| "and_then (Returns True) y = y"

text \<open>
  Modelled from the spec: Go's \<open>==\<close> on two non-nil interface values (\<open>go_eq\<close>), on two
  interface values (\<open>go_eq_opt\<close>) and on two \<open>Checkpoint\<close> structs (\<open>struct_eq\<close>), the
  host's equality rule. Values of different dynamic types are unequal; two values of the
  same non-comparable type make the comparison panic; structs are compared field by
  field in the order of the declaration (\<open>err\<close>, \<open>prev\<close>, \<open>callerOk\<close>, \<open>file\<close>, \<open>line\<close>),
  stopping at the first difference, as the language specification says. Pointers are
  compared by address and never panic; one address holds one struct, so the model
  compares the struct with the address. In the same way a foreign value of a comparable
  type is compared with all that the model records of it.
\<close>

fun go_eq :: "error \<Rightarrow> error \<Rightarrow> outcome"
and go_eq_opt :: "error option \<Rightarrow> error option \<Rightarrow> outcome"
and struct_eq :: "Checkpoint \<Rightarrow> Checkpoint \<Rightarrow> outcome" where
  "go_eq (Foreign ty i m w) (Foreign ty' i' m' w') =
     (if ty \<noteq> ty' then Returns False
      else if \<not> comparable ty then Panics
      else Returns (i = i' \<and> m = m' \<and> w = w'))"
| "go_eq (Foreign ty i m w) (Value c') = Returns False"
| "go_eq (Foreign ty i m w) (Pointer a' c') = Returns False"
| "go_eq (Value c) (Foreign ty' i' m' w') = Returns False"
| "go_eq (Value c) (Value c') = struct_eq c c'"
| "go_eq (Value c) (Pointer a' c') = Returns False"
| "go_eq (Pointer a c) (Foreign ty' i' m' w') = Returns False"
| "go_eq (Pointer a c) (Value c') = Returns False"
| "go_eq (Pointer a c) (Pointer a' c') = Returns (a = a' \<and> c = c')"
| "go_eq_opt None None = Returns True"
| "go_eq_opt None (Some y) = Returns False"
| "go_eq_opt (Some x) None = Returns False"
| "go_eq_opt (Some x) (Some y) = go_eq x y"
| "struct_eq (Checkpoint e p ok f l) (Checkpoint e' p' ok' f' l') =
     and_then (go_eq_opt e e')
       (and_then (go_eq_opt p p') (Returns (ok = ok' \<and> f = f' \<and> l = l')))"

text \<open>
  What \<open>reflectlite.TypeOf(target).Comparable()\<close> reports in \<open>errors.Is\<close>: whether the
  dynamic type of the target is comparable. The struct \<open>Checkpoint\<close> and the pointer to
  it are comparable types, whatever the struct holds.
\<close>

fun type_comparable :: "error \<Rightarrow> bool" where
  "type_comparable (Foreign ty i m w) = comparable ty"
| "type_comparable (Value c) = True"
| "type_comparable (Pointer a c) = True"

text \<open>
  Modelled from the spec: \<open>errors.Is\<close> of the Go library, the host's chain-membership
  test. With a nil argument it compares the two; otherwise it walks from \<open>err\<close>: a link
  matches when the target's type is comparable and the link \<open>==\<close> the target, or when
  the link has an \<open>Is\<close> method that accepts the target, and the walk moves on with the
  link's \<open>Unwrap()\<close> until that is nil. The one type with an \<open>Is\<close> method here is the
  checkpoint, so the walk and \<open>Checkpoint_Is\<close> (the method of the code:
  \<open>errors.Is(e.err, target)\<close>) are defined together. \<open>eq_target\<close> is the test
  \<open>isComparable && err == target\<close>.
\<close>

definition eq_target :: "error \<Rightarrow> error \<Rightarrow> outcome" where
  "eq_target e t = (if type_comparable t then go_eq e t else Returns False)"

fun errors_Is :: "error option \<Rightarrow> error option \<Rightarrow> outcome"
and is_walk :: "error \<Rightarrow> error \<Rightarrow> outcome"
and Checkpoint_Is :: "Checkpoint \<Rightarrow> error option \<Rightarrow> outcome" where
  "errors_Is None target = Returns (target = None)"
| "errors_Is (Some e) None = Returns False"
| "errors_Is (Some e) (Some t) = is_walk e t"
| "is_walk (Foreign ty i m w) t =
     or_else (eq_target (Foreign ty i m w) t)
       (case w of None \<Rightarrow> Returns False | Some e' \<Rightarrow> is_walk e' t)"
| "is_walk (Value (Checkpoint e p ok f l)) t =
     or_else (eq_target (Value (Checkpoint e p ok f l)) t)
       (or_else (Checkpoint_Is (Checkpoint e p ok f l) (Some t))
          (case p of None \<Rightarrow> Returns False | Some e' \<Rightarrow> is_walk e' t))"
| "is_walk (Pointer a (Checkpoint e p ok f l)) t =
     or_else (eq_target (Pointer a (Checkpoint e p ok f l)) t)
       (or_else (Checkpoint_Is (Checkpoint e p ok f l) (Some t))
          (case p of None \<Rightarrow> Returns False | Some e' \<Rightarrow> is_walk e' t))"
| "Checkpoint_Is (Checkpoint e p ok f l) target = errors_Is e target"

text \<open>
  The values that Go's \<open>==\<close> can compare with themselves: a foreign error of a
  comparable type, a pointer, and a \<open>Checkpoint\<close> value whose \<open>err\<close> and \<open>prev\<close> are nil
  or such values.
\<close>

fun comparable_value :: "error \<Rightarrow> bool"
and comparable_struct :: "Checkpoint \<Rightarrow> bool" where
  "comparable_value (Foreign ty i m w) = comparable ty"
| "comparable_value (Value c) = comparable_struct c"
| "comparable_value (Pointer a c) = True"
| "comparable_struct (Checkpoint e p ok f l) =
     ((case e of None \<Rightarrow> True | Some x \<Rightarrow> comparable_value x)
      \<and> (case p of None \<Rightarrow> True | Some x \<Rightarrow> comparable_value x))"

text \<open>
  Modelled from the spec: \<open>errors.As\<close> of the Go library, the host's typed-extraction
  test. The slot is given by \<open>k\<close>, which says whether a value can be assigned to the
  slot's type. The result is \<open>Some v\<close> when the call returns true with \<open>v\<close> written
  into the slot, and \<open>None\<close> when it returns false. The walk takes the first link that
  fits the slot, or that has an \<open>As\<close> method that fills it, and moves on with
  \<open>Unwrap()\<close>. \<open>Checkpoint_As\<close> is the method of the code: \<open>errors.As(e.err, target)\<close>.
\<close>

fun errors_As :: "error option \<Rightarrow> (error \<Rightarrow> bool) \<Rightarrow> error option"
and as_walk :: "error \<Rightarrow> (error \<Rightarrow> bool) \<Rightarrow> error option"
and Checkpoint_As :: "Checkpoint \<Rightarrow> (error \<Rightarrow> bool) \<Rightarrow> error option" where
  "errors_As None k = None"
| "errors_As (Some e) k = as_walk e k"
| "as_walk (Foreign ty i m w) k =
     (if k (Foreign ty i m w) then Some (Foreign ty i m w)
      else (case w of None \<Rightarrow> None | Some e' \<Rightarrow> as_walk e' k))"
| "as_walk (Value (Checkpoint e p ok f l)) k =
     (if k (Value (Checkpoint e p ok f l)) then Some (Value (Checkpoint e p ok f l))
      else
        (case Checkpoint_As (Checkpoint e p ok f l) k of
           Some v \<Rightarrow> Some v
         | None \<Rightarrow> (case p of None \<Rightarrow> None | Some e' \<Rightarrow> as_walk e' k)))"
| "as_walk (Pointer a (Checkpoint e p ok f l)) k =
     (if k (Pointer a (Checkpoint e p ok f l))
      then Some (Pointer a (Checkpoint e p ok f l))
      else
        (case Checkpoint_As (Checkpoint e p ok f l) k of
           Some v \<Rightarrow> Some v
         | None \<Rightarrow> (case p of None \<Rightarrow> None | Some e' \<Rightarrow> as_walk e' k)))"
| "Checkpoint_As (Checkpoint e p ok f l) k = errors_As e k"

section \<open>Values used in the scenarios\<close>

text \<open>An option that overrides every error by \<open>x\<close>: \<open>func(err error) error { return x }\<close>.\<close>

definition override_by :: "error \<Rightarrow> Option" where
  "override_by x er = Some x"

text \<open>An option that never overrides: \<open>func(err error) error { return nil }\<close>.\<close>

definition no_override :: Option where
  "no_override er = None"

text \<open>Two errors made by \<open>errors.New("A")\<close> and \<open>errors.New("B")\<close>.\<close>

definition err_A :: error where
  "err_A = Foreign errorString_ptr 2 ''A'' None"

definition err_B :: error where
  "err_B = Foreign errorString_ptr 3 ''B'' None"

text \<open>The node \<open>From(err_A)\<close> built at line 10 of \<open>x.go\<close>, and \<open>Wrap\<close> of it at line 11.\<close>

definition node_A :: Checkpoint where
  "node_A = Checkpoint (Some err_A) None True ''x.go'' 10"

definition node_BA :: Checkpoint where
  "node_BA = Checkpoint (Some err_B) (Some (Value node_A)) True ''x.go'' 11"



section \<open>The option loop of the builders\<close>

lemma From_no_override:
  "\<forall>q\<in>set options. q er = None \<Longrightarrow> From c er options = From c er []"
  by (induction options) simp_all

lemma Wrap_no_override:
  "\<forall>q\<in>set options. q er = None \<Longrightarrow> Wrap c prv er options = Wrap c prv er []"
  by (induction options) simp_all

lemma From_first_override:
  "\<forall>q\<in>set pre. q er = None \<Longrightarrow> opt er = Some r \<Longrightarrow>
   From c er (pre @ opt # post) = Some r"
  by (induction pre) simp_all

lemma Wrap_first_override:
  "\<forall>q\<in>set pre. q er = None \<Longrightarrow> opt er = Some r \<Longrightarrow>
   Wrap c prv er (pre @ opt # post) = Some r"
  by (induction pre) simp_all

section \<open>Outcomes\<close>

lemma or_else_True_iff:
  "or_else a b = Returns True \<longleftrightarrow>
   a = Returns True \<or> (a = Returns False \<and> b = Returns True)"
  by (cases "(a, b)" rule: or_else.cases) auto

lemma and_then_True_iff:
  "and_then a b = Returns True \<longleftrightarrow> a = Returns True \<and> b = Returns True"
  by (cases "(a, b)" rule: and_then.cases) auto

lemma or_else_Returns: "or_else (Returns b) y = (if b then Returns True else y)"
  by (cases b) simp_all

lemma and_then_Returns: "and_then (Returns b) y = (if b then y else Returns False)"
  by (cases b) simp_all

section \<open>Equality of interface values\<close>

text \<open>Only a value that \<open>==\<close> can compare with itself is ever found equal to something.\<close>

lemma go_eq_True_comparable:
  "go_eq x t = Returns True \<Longrightarrow> comparable_value t"
  "go_eq_opt xo yo = Returns True \<Longrightarrow>
   (case yo of None \<Rightarrow> True | Some y \<Rightarrow> comparable_value y)"
  "struct_eq c c' = Returns True \<Longrightarrow> comparable_struct c'"
  by (induction x t and xo yo and c c' rule: go_eq_go_eq_opt_struct_eq.induct)
    (auto simp add: and_then_True_iff split: if_splits)

text \<open>Against such a value \<open>==\<close> never panics, and it is the equality of the model.\<close>

lemma go_eq_comparable:
  "comparable_value t \<Longrightarrow> go_eq x t = Returns (x = t)"
  "(case yo of None \<Rightarrow> True | Some y \<Rightarrow> comparable_value y) \<Longrightarrow>
   go_eq_opt xo yo = Returns (xo = yo)"
  "comparable_struct c' \<Longrightarrow> struct_eq c c' = Returns (c = c')"
  by (induction x t and xo yo and c c' rule: go_eq_go_eq_opt_struct_eq.induct)
    (auto simp add: and_then_Returns)

lemma comparable_value_type: "comparable_value t \<Longrightarrow> type_comparable t"
  by (cases t) simp_all

lemma eq_target_comparable: "comparable_value t \<Longrightarrow> eq_target x t = Returns (x = t)"
  by (simp add: eq_target_def comparable_value_type go_eq_comparable)

lemma eq_target_True_comparable: "eq_target x t = Returns True \<Longrightarrow> comparable_value t"
  by (auto simp add: eq_target_def go_eq_True_comparable split: if_splits)

section \<open>The chain-membership walk\<close>

text \<open>The walk finds only targets that \<open>==\<close> can compare with themselves.\<close>

lemma is_walk_True_comparable:
  "errors_Is eo target = Returns True \<Longrightarrow>
   (case target of None \<Rightarrow> True | Some t \<Rightarrow> comparable_value t)"
  "is_walk x t = Returns True \<Longrightarrow> comparable_value t"
  "Checkpoint_Is n target = Returns True \<Longrightarrow>
   (case target of None \<Rightarrow> True | Some t \<Rightarrow> comparable_value t)"
  by (induction eo target and x t and n target rule: errors_Is_is_walk_Checkpoint_Is.induct)
    (auto simp add: or_else_True_iff eq_target_True_comparable split: option.splits)

text \<open>For such a target the walk returns, from every start.\<close>

lemma is_walk_returns:
  "(case target of None \<Rightarrow> True | Some t \<Rightarrow> comparable_value t) \<Longrightarrow>
   errors_Is eo target \<noteq> Panics"
  "comparable_value t \<Longrightarrow> is_walk x t \<noteq> Panics"
  "(case target of None \<Rightarrow> True | Some t \<Rightarrow> comparable_value t) \<Longrightarrow>
   Checkpoint_Is n target \<noteq> Panics"
proof (induction eo target and x t and n target rule: errors_Is_is_walk_Checkpoint_Is.induct)
  case (4 ty i m w t)
  then show ?case
    by (cases "Foreign ty i m w = t")
      (auto simp add: eq_target_comparable or_else_Returns split: option.splits)
next
  case (5 e p ok f l t)
  then show ?case
    by (cases "Value (Checkpoint e p ok f l) = t"; cases "errors_Is e (Some t)"; cases p)
      (auto simp add: eq_target_comparable or_else_Returns)
next
  case (6 a e p ok f l t)
  then show ?case
    by (cases "Pointer a (Checkpoint e p ok f l) = t"; cases "errors_Is e (Some t)"; cases p)
      (auto simp add: eq_target_comparable or_else_Returns)
qed simp_all





lemma is_walk_Value_cause:
  assumes "is_walk cause t = Returns True"
  shows "is_walk (Value (Checkpoint e (Some cause) ok f l)) t = Returns True"
proof -
  from assms have ct: "comparable_value t"
    by (rule is_walk_True_comparable(2))
  then have "errors_Is e (Some t) \<noteq> Panics"
    by (simp add: is_walk_returns(1))
  then obtain b where "errors_Is e (Some t) = Returns b"
    by (cases "errors_Is e (Some t)") simp_all
  with ct assms show ?thesis
    by (simp add: eq_target_comparable or_else_Returns)
qed

section \<open>Rendering\<close>

text \<open>
  C1. The one-level render holds: \<open>From(err_A)\<close> at line 10 of \<open>x.go\<close> renders as
  \<open>File: x.go:10\n\tA\n\<close>. The two-level render does not: \<open>From\<close> and \<open>Wrap\<close> return the
  struct by value, the method \<open>Error\<close> tests the cause for the pointer type, so the cause
  built by \<open>From\<close> is formatted as a foreign error. \<open>Wrap\<close> of that node with \<open>err_B\<close> at
  line 11 renders as \<open>File: x.go:11\n\tB\nFile: unknown\n\tFile: x.go:10\n\t\tA\n\t\<close>, of
  which \<open>File: x.go:11\n\tB\nFile: x.go:10\n\tA\n\<close> is not a prefix.
\<close>

theorem C1_two_level_render:
  "From (''/home/u/x.go'', 10, True) (Some err_A) [] = Some (Value node_A)
   \<and> Checkpoint_Error node_A = ''File: x.go:10\<newline>'' @ [CHR 0x09] @ ''A\<newline>''
   \<and> Wrap (''/home/u/x.go'', 11, True) (Some (Value node_A)) (Some err_B) []
       = Some (Value node_BA)
   \<and> Checkpoint_Error node_BA
       = ''File: x.go:11\<newline>'' @ [CHR 0x09] @ ''B\<newline>''
         @ ''File: unknown\<newline>'' @ [CHR 0x09]
         @ ''File: x.go:10\<newline>'' @ [CHR 0x09, CHR 0x09] @ ''A\<newline>'' @ [CHR 0x09]
   \<and> \<not> prefix (''File: x.go:11\<newline>'' @ [CHR 0x09] @ ''B\<newline>''
                @ ''File: x.go:10\<newline>'' @ [CHR 0x09] @ ''A\<newline>'')
               (Checkpoint_Error node_BA)"
  by (simp add: node_BA_def node_A_def err_A_def err_B_def fmt_d_def filepath_Base_def)

text \<open>
  The same for every cause held by value, which is every checkpoint the builders return:
  it is rendered as a foreign error.
\<close>

lemma Checkpoint_Error_value_cause:
  "Checkpoint_Error (Checkpoint e (Some (Value n)) True f l)
   = ''File: '' @ f @ '':'' @ fmt_d l @ ''\<newline>'' @ [CHR 0x09]
     @ (case e of None \<Rightarrow> ''<nil>'' | Some x \<Rightarrow> error_Error x) @ ''\<newline>''
     @ ''File: unknown\<newline>'' @ [CHR 0x09]
     @ ReplaceAll (Checkpoint_Error n) ''\<newline>'' (''\<newline>'' @ [CHR 0x09])"
  by (simp del: ReplaceAll.simps)

lemma From_not_pointer:
  "From c er [] = Some x \<Longrightarrow> \<not> is_Checkpoint_ptr x"
  by (cases c) (auto split: if_splits)

lemma Wrap_not_pointer:
  "Wrap c prv er [] = Some x \<Longrightarrow> \<not> is_Checkpoint_ptr x"
  by (cases c) (auto split: if_splits)

text \<open>
  When the cause is a pointer to a checkpoint, its render is appended unchanged: this is
  the branch the comment in \<open>Error\<close> describes.
\<close>

lemma Checkpoint_Error_pointer_cause:
  "Checkpoint_Error (Checkpoint e (Some (Pointer a n)) True f l)
   = ''File: '' @ f @ '':'' @ fmt_d l @ ''\<newline>'' @ [CHR 0x09]
     @ (case e of None \<Rightarrow> ''<nil>'' | Some x \<Rightarrow> error_Error x) @ ''\<newline>''
     @ Checkpoint_Error n"
  by simp

section \<open>The builders\<close>

text \<open>
  C2. In \<open>From\<close> and in \<open>Wrap\<close> the options are applied to the \<open>err\<close> argument, whatever
  \<open>prev\<close> is, in the order of the list: when the options before \<open>opt\<close> return nil on
  \<open>err\<close> and \<open>opt\<close> returns \<open>r\<close>, the builder returns \<open>r\<close> itself; when every option
  returns nil, the construction proceeds: \<open>From\<close> returns nil for a nil \<open>err\<close> and
  otherwise the checkpoint of \<open>err\<close> with a nil \<open>prev\<close> at the caller's position, \<open>Wrap\<close>
  returns nil for a nil \<open>prev\<close> and otherwise the checkpoint of \<open>err\<close> and \<open>prev\<close>.
\<close>

theorem C2_first_override_wins:
  "((\<forall>q\<in>set pre. q er = None) \<and> opt er = Some r \<longrightarrow>
      From c er (pre @ opt # post) = Some r
      \<and> Wrap c prv er (pre @ opt # post) = Some r)
   \<and> ((\<forall>q\<in>set options. q er = None) \<longrightarrow>
      From (path, ln, ok) er options
        = (if er = None then None
           else Some (Value (Checkpoint er None ok (filepath_Base path) ln)))
      \<and> Wrap (path, ln, ok) prv er options
        = (if prv = None then None
           else Some (Value (Checkpoint er prv ok (filepath_Base path) ln))))"
  by (simp add: From_first_override Wrap_first_override From_no_override Wrap_no_override)

theorem C2_first_override_wins_witness:
  "no_override (Some err_A) = None
   \<and> override_by err_B (Some err_A) = Some err_B
   \<and> From (''x.go'', 7, True) (Some err_A) ([no_override] @ override_by err_B # [IgnoreEOF])
       = Some err_B
   \<and> Wrap (''x.go'', 7, True) None (Some err_A)
        ([no_override] @ override_by err_B # [IgnoreEOF]) = Some err_B
   \<and> IgnoreEOF (Some err_A) = None
   \<and> From (''/src/x.go'', 7, True) (Some err_A) [no_override, IgnoreEOF]
       = Some (Value (Checkpoint (Some err_A) None True ''x.go'' 7))
   \<and> Wrap (''/src/x.go'', 7, True) (Some err_B) (Some err_A) [no_override, IgnoreEOF]
       = Some (Value (Checkpoint (Some err_A) (Some err_B) True ''x.go'' 7))"
  using C2_first_override_wins [of "[no_override]" "Some err_A" "override_by err_B" err_B
      "(''x.go'', 7, True)" "[IgnoreEOF]" None "[]" "[]" 0 False]
    C2_first_override_wins [of "[]" "Some err_A" no_override err_B
      "(''x.go'', 7, True)" "[]" "Some err_B" "[no_override, IgnoreEOF]" "''/src/x.go''" 7 True]
  by (simp add: no_override_def override_by_def IgnoreEOF_def err_A_def err_B_def
      io_EOF_def io_ErrUnexpectedEOF_def filepath_Base_def)

text \<open>
  C3. When no option overrides, \<open>From(nil)\<close> is nil, and \<open>Wrap(nil, err)\<close> is nil for
  every \<open>err\<close>, nil or not.
\<close>

theorem C3_absent_in_absent_out:
  "((\<forall>q\<in>set options. q None = None) \<longrightarrow> From c None options = None)
   \<and> ((\<forall>q\<in>set options. q er = None) \<longrightarrow> Wrap c None er options = None)"
  by (simp add: From_no_override Wrap_no_override)

theorem C3_absent_in_absent_out_witness:
  "IgnoreEOF None = None \<and> no_override None = None
   \<and> From (''x.go'', 7, True) None [IgnoreEOF, no_override] = None
   \<and> IgnoreEOF (Some err_A) = None \<and> no_override (Some err_A) = None
   \<and> Wrap (''x.go'', 7, True) None (Some err_A) [IgnoreEOF, no_override] = None"
  using C3_absent_in_absent_out [of "[IgnoreEOF, no_override]" "(''x.go'', 7, True)" "Some err_A"]
  by (simp add: no_override_def IgnoreEOF_def err_A_def io_EOF_def io_ErrUnexpectedEOF_def)

text \<open>
  C4. When \<open>prev\<close> is not nil and no option overrides, \<open>Wrap(prev, nil)\<close> is a checkpoint
  whose \<open>err\<close> is nil and whose \<open>Unwrap()\<close> is \<open>prev\<close>.
\<close>

theorem C4_wrap_absent_annotation:
  assumes "\<forall>q\<in>set options. q None = None"
  shows "\<exists>n. Wrap c (Some cause) None options = Some (Value n)
             \<and> err n = None \<and> Checkpoint_Unwrap n = Some cause"
  using assms by (cases c) (simp add: Wrap_no_override Checkpoint_Unwrap_def)

theorem C4_wrap_absent_annotation_witness:
  "IgnoreEOF None = None
   \<and> (\<exists>n. Wrap (''x.go'', 7, True) (Some err_A) None [IgnoreEOF] = Some (Value n)
           \<and> err n = None \<and> Checkpoint_Unwrap n = Some err_A)"
  using C4_wrap_absent_annotation [of "[IgnoreEOF]" "(''x.go'', 7, True)" err_A]
  by (simp add: IgnoreEOF_def)

text \<open>
  C5. As stated, for any option list that contains \<open>IgnoreEOF\<close>, the claim fails: an
  option placed before \<open>IgnoreEOF\<close> that overrides the sentinel wins, since the first
  non-nil result is returned.
\<close>

theorem C5_earlier_option_counterexample:
  "IgnoreEOF \<in> set [override_by err_A, IgnoreEOF]
   \<and> From (''x.go'', 7, True) (Some io_EOF) [override_by err_A, IgnoreEOF] \<noteq> Some io_EOF"
  by (simp add: override_by_def err_A_def io_EOF_def)

text \<open>
  C5, amended. When the options placed before \<open>IgnoreEOF\<close> return nil on the sentinel,
  \<open>From\<close> of \<open>io.EOF\<close> or of \<open>io.ErrUnexpectedEOF\<close> returns that sentinel itself, not a
  checkpoint.
\<close>

theorem C5_IgnoreEOF_returns_sentinel:
  assumes "\<forall>q\<in>set pre. q (Some s) = None"
    and "s = io_EOF \<or> s = io_ErrUnexpectedEOF"
  shows "From c (Some s) (pre @ IgnoreEOF # post) = Some s"
proof -
  from assms(2) have "IgnoreEOF (Some s) = Some s"
    by (auto simp add: IgnoreEOF_def)
  with assms(1) show ?thesis
    by (rule From_first_override)
qed

theorem C5_IgnoreEOF_returns_sentinel_witness:
  "no_override (Some io_ErrUnexpectedEOF) = None
   \<and> (io_ErrUnexpectedEOF = io_EOF \<or> io_ErrUnexpectedEOF = io_ErrUnexpectedEOF)
   \<and> From (''x.go'', 7, True) (Some io_ErrUnexpectedEOF)
        ([no_override] @ IgnoreEOF # [override_by err_A]) = Some io_ErrUnexpectedEOF"
  using C5_IgnoreEOF_returns_sentinel [of "[no_override]" io_ErrUnexpectedEOF
      "(''x.go'', 7, True)" "[override_by err_A]"]
  by (simp add: no_override_def)




text \<open>
  C10. The loop over the options runs before the nil checks: an option that overrides is
  obeyed by \<open>Wrap\<close> when \<open>prev\<close> is nil, and by \<open>From\<close> when \<open>err\<close> is nil, where the
  builder would return nil without it.
\<close>

theorem C10_options_before_nil_checks:
  "((\<forall>q\<in>set pre. q er = None) \<and> opt er = Some r \<longrightarrow>
      Wrap c None er (pre @ opt # post) = Some r \<and> Wrap c None er [] = None)
   \<and> ((\<forall>q\<in>set pre. q None = None) \<and> opt None = Some r \<longrightarrow>
      From c None (pre @ opt # post) = Some r \<and> From c None [] = None)"
  by (simp add: From_first_override Wrap_first_override)

theorem C10_options_before_nil_checks_witness:
  "IgnoreEOF (Some err_A) = None
   \<and> override_by err_B (Some err_A) = Some err_B
   \<and> Wrap (''x.go'', 7, True) None (Some err_A) ([IgnoreEOF] @ override_by err_B # []) = Some err_B
   \<and> Wrap (''x.go'', 7, True) None (Some err_A) [] = None
   \<and> IgnoreEOF None = None
   \<and> override_by err_B None = Some err_B
   \<and> From (''x.go'', 7, True) None ([IgnoreEOF] @ override_by err_B # []) = Some err_B
   \<and> From (''x.go'', 7, True) None [] = None"
  using C10_options_before_nil_checks [of "[IgnoreEOF]" "Some err_A" "override_by err_B" err_B
      "(''x.go'', 7, True)" "[]"]
    C10_options_before_nil_checks [of "[IgnoreEOF]" None "override_by err_B" err_B
      "(''x.go'', 7, True)" "[]"]
  by (simp add: override_by_def IgnoreEOF_def err_A_def io_EOF_def io_ErrUnexpectedEOF_def)

section \<open>The traversal predicates\<close>

text \<open>
  C6. \<open>Is\<close> and \<open>As\<close> of a checkpoint are the library's tests applied to the field
  \<open>err\<close>; the other fields, \<open>prev\<close> among them, do not change their result. For
  \<open>n = Wrap(cause, e)\<close> and a target that the library's test finds in \<open>cause\<close> and not
  in \<open>e\<close>, \<open>n.Is(t)\<close> is false, \<open>n.Unwrap()\<close> is \<open>cause\<close>, and the library's test on
  \<open>n\<close> finds the target, through \<open>Unwrap\<close>.
\<close>

theorem C6_Is_As_annotation_only:
  "Checkpoint_Is (Checkpoint e p ok f l) target = errors_Is e target
   \<and> Checkpoint_Is (Checkpoint e p ok f l) target
       = Checkpoint_Is (Checkpoint e p' ok' f' l') target
   \<and> Checkpoint_As (Checkpoint e p ok f l) k = errors_As e k
   \<and> Checkpoint_As (Checkpoint e p ok f l) k = Checkpoint_As (Checkpoint e p' ok' f' l') k
   \<and> (Wrap c (Some cause) e [] = Some (Value n)
        \<and> errors_Is (Some cause) (Some t) = Returns True
        \<and> errors_Is e (Some t) = Returns False \<longrightarrow>
      Checkpoint_Is n (Some t) = Returns False \<and> Checkpoint_Unwrap n = Some cause
      \<and> errors_Is (Some (Value n)) (Some t) = Returns True)"
proof -
  have "Checkpoint_Is n (Some t) = Returns False \<and> Checkpoint_Unwrap n = Some cause
        \<and> errors_Is (Some (Value n)) (Some t) = Returns True"
    if built: "Wrap c (Some cause) e [] = Some (Value n)"
      and found: "errors_Is (Some cause) (Some t) = Returns True"
      and absent: "errors_Is e (Some t) = Returns False"
  proof -
    obtain path ln k where "c = (path, ln, k)"
      by (cases c)
    with built have n: "n = Checkpoint e (Some cause) k (filepath_Base path) ln"
      by simp
    from found have "is_walk cause t = Returns True"
      by simp
    then have "is_walk (Value (Checkpoint e (Some cause) k (filepath_Base path) ln)) t
                 = Returns True"
      by (rule is_walk_Value_cause)
    with n absent show ?thesis
      by (simp add: Checkpoint_Unwrap_def del: is_walk.simps)
  qed
  then show ?thesis
    by simp
qed

theorem C6_Is_As_annotation_only_witness:
  "Wrap (''x.go'', 11, True) (Some (Value node_A)) (Some err_B) [] = Some (Value node_BA)
   \<and> errors_Is (Some (Value node_A)) (Some err_A) = Returns True
   \<and> errors_Is (Some err_B) (Some err_A) = Returns False
   \<and> Checkpoint_Is node_BA (Some err_A) = Returns False
   \<and> Checkpoint_Unwrap node_BA = Some (Value node_A)
   \<and> errors_Is (Some (Value node_BA)) (Some err_A) = Returns True"
  using C6_Is_As_annotation_only [of "Some err_B" None True "''x.go''" 11 "Some err_A"
      None True "''x.go''" 11 "\<lambda>x. False" "(''x.go'', 11, True)" "Value node_A" node_BA err_A]
  by (simp add: node_BA_def node_A_def err_A_def err_B_def filepath_Base_def eq_target_def
      errorString_ptr_def)




end
